theory Spec2Isabelle
  imports Main
begin

section \<open>The AMI migration service (package ami)\<close>

text \<open>
  A shallow embedding of the service in package \<^verbatim>\<open>ami\<close>: the image lookup
  \<^verbatim>\<open>GetAMIWithTag\<close>, the orchestrator \<^verbatim>\<open>MigrateInstances\<close> and the helpers it
  calls (\<^verbatim>\<open>fetchEnabledInstances\<close>, \<^verbatim>\<open>shouldMigrateInstance\<close>, \<^verbatim>\<open>startInstance\<close>,
  \<^verbatim>\<open>stopInstance\<close>, \<^verbatim>\<open>upgradeInstance\<close>, \<^verbatim>\<open>copyTags\<close>, \<^verbatim>\<open>tagInstanceStatus\<close>).

  The EC2 client is an interface of the service; it is a parameter of every definition
  here. The client acts on a world of arbitrary type \<open>'w\<close>: each operation takes its
  input and the world, and returns its answer and the next world. Every call the service
  makes is appended to a log, so that statements about which calls are issued, and in
  which order, are statements about the log.
\<close>

subsection \<open>Go values\<close>

text \<open>
  An \<^verbatim>\<open>error\<close> value. \<open>errorString\<close> is an error with the given text (what the
  provider or the waiter returns); \<open>wrapError msg err\<close> is what \<^verbatim>\<open>fmt.Errorf\<close> builds
  for a format with \<^verbatim>\<open>%w\<close>: the formatted text \<open>msg\<close> and the wrapped error.
\<close>

datatype error = errorString string | wrapError string error

fun Error :: "error \<Rightarrow> string" where
  "Error (errorString m) = m"
| "Error (wrapError m err) = m"

fun Unwrap :: "error \<Rightarrow> error option" where
  "Unwrap (errorString m) = None"
| "Unwrap (wrapError m err) = Some err"

text \<open>\<^verbatim>\<open>fmt.Errorf(prefix + "%w", err)\<close>: the text is the prefix followed by the text of \<open>err\<close>.\<close>

definition Errorf_w :: "string \<Rightarrow> error \<Rightarrow> error" where
  "Errorf_w prefix err = wrapError (prefix @ Error err) err"

text \<open>\<^verbatim>\<open>fmt.Sprintf(prefix + "%v", err)\<close> for a non-nil error \<open>err\<close>.\<close>

definition Sprintf_v :: "string \<Rightarrow> error \<Rightarrow> string" where
  "Sprintf_v prefix err = prefix @ Error err"

text \<open>\<^verbatim>\<open>aws.ToString\<close>: the string behind a pointer, the empty string for nil.\<close>

fun ToString :: "string option \<Rightarrow> string" where
  "ToString None = []"
| "ToString (Some str) = str"

text \<open>
  What a function of the service does: it returns a value, or it panics (an index out of
  range). A panic is not an error value: no \<^verbatim>\<open>if err != nil\<close> sees it, and inside a
  goroutine nothing recovers it, so the operation that started the goroutine never returns.
\<close>

datatype 'a outcome = Returns 'a | Panics

subsection \<open>The data of the provider\<close>

text \<open>
  Modelled from the spec: the declarations of the SDK types (\<^verbatim>\<open>types.Instance\<close>,
  \<^verbatim>\<open>types.Tag\<close>, the inputs and outputs of the client) are not among the sources. The
  records below have the fields the service reads or writes, under the names it uses.
  As in the data model of the specification, an instance has an identifier, a lifecycle
  state (one of six), a type, volume attachments and tags; the service reads
  \<^verbatim>\<open>instance.State.Name\<close> without a check, and the record holds the state as a value.
  What the service reads through \<^verbatim>\<open>aws.ToString\<close> is a \<open>string option\<close>, and
  \<^verbatim>\<open>Ebs\<close>, which it compares with nil, is an option too.
\<close>

datatype InstanceStateName =
    InstanceStateNamePending
  | InstanceStateNameRunning
  | InstanceStateNameShuttingDown
  | InstanceStateNameTerminated
  | InstanceStateNameStopping
  | InstanceStateNameStopped

record InstanceState =
  Name :: InstanceStateName

record Tag =
  Key :: "string option"
  Value :: "string option"

record EbsInstanceBlockDevice =
  VolumeId :: "string option"

record InstanceBlockDeviceMapping =
  DeviceName :: "string option"
  Ebs :: "EbsInstanceBlockDevice option"

record Instance =
  InstanceId :: "string option"
  State :: InstanceState
  InstanceType :: string
  BlockDeviceMappings :: "InstanceBlockDeviceMapping list"
  Tags :: "Tag list"

record Image =
  ImageId :: "string option"

record Reservation =
  ReservationInstances :: "Instance list"

text \<open>A filter of a describe call: its name and its values.\<close>

datatype Filter = Filter "string option" "string list"

text \<open>
  The inputs of the client's operations, with the fields the service sets, in the order
  given beside each.
\<close>

datatype DescribeImagesInput = DescribeImagesInput "Filter list"
  \<comment> \<open>Filters\<close>
datatype DescribeInstancesInput = DescribeInstancesInput "Filter list" "string list"
  \<comment> \<open>Filters, InstanceIds\<close>
datatype CreateSnapshotInput = CreateSnapshotInput "string option" "string option"
  \<comment> \<open>VolumeId, Description\<close>
datatype TerminateInstancesInput = TerminateInstancesInput "string list"
  \<comment> \<open>InstanceIds\<close>
datatype RunInstancesInput = RunInstancesInput "string option" string "int option" "int option"
  \<comment> \<open>ImageId, InstanceType, MinCount, MaxCount\<close>
datatype StopInstancesInput = StopInstancesInput "string list"
  \<comment> \<open>InstanceIds\<close>
datatype StartInstancesInput = StartInstancesInput "string list"
  \<comment> \<open>InstanceIds\<close>
datatype CreateTagsInput = CreateTagsInput "string list" "Tag list"
  \<comment> \<open>Resources, Tags\<close>

record DescribeImagesOutput =
  Images :: "Image list"

record DescribeInstancesOutput =
  Reservations :: "Reservation list"

record RunInstancesOutput =
  Instances :: "Instance list"

text \<open>A duration in nanoseconds, as \<^verbatim>\<open>time.Duration\<close> counts it.\<close>

type_synonym Duration = int

definition Minute :: Duration where
  "Minute = 60 * 1000000000"

subsection \<open>The client and the log of its calls\<close>

text \<open>
  \<^verbatim>\<open>EC2ClientAPI\<close>. An operation whose output the service reads answers an error or an
  output; an operation whose output the service drops (\<^verbatim>\<open>_, err := ...\<close>) answers an
  error or nil.

  Three things the service takes from libraries are fields of the same record, since
  they too depend on the world:
  \<^item> \<open>InstanceRunningWaiter_Wait\<close> and \<open>InstanceStoppedWaiter_Wait\<close>, the SDK's waiters
    built on the client: given the describe input and the longest wait, they poll the
    provider until the instance is in the state or the wait is over, and answer an
    error or nil;
  \<^item> \<open>Now_UTC_RFC3339\<close>, the wall clock of the world, read in UTC and written in the
    layout \<^verbatim>\<open>time.RFC3339\<close>.
\<close>

record 'w EC2ClientAPI =
  DescribeImages :: "DescribeImagesInput \<Rightarrow> 'w \<Rightarrow> (error + DescribeImagesOutput) \<times> 'w"
  DescribeInstances :: "DescribeInstancesInput \<Rightarrow> 'w \<Rightarrow> (error + DescribeInstancesOutput) \<times> 'w"
  CreateSnapshot :: "CreateSnapshotInput \<Rightarrow> 'w \<Rightarrow> error option \<times> 'w"
  TerminateInstances :: "TerminateInstancesInput \<Rightarrow> 'w \<Rightarrow> error option \<times> 'w"
  RunInstances :: "RunInstancesInput \<Rightarrow> 'w \<Rightarrow> (error + RunInstancesOutput) \<times> 'w"
  StopInstances :: "StopInstancesInput \<Rightarrow> 'w \<Rightarrow> error option \<times> 'w"
  StartInstances :: "StartInstancesInput \<Rightarrow> 'w \<Rightarrow> error option \<times> 'w"
  CreateTags :: "CreateTagsInput \<Rightarrow> 'w \<Rightarrow> error option \<times> 'w"
  InstanceRunningWaiter_Wait :: "DescribeInstancesInput \<Rightarrow> Duration \<Rightarrow> 'w \<Rightarrow> error option \<times> 'w"
  InstanceStoppedWaiter_Wait :: "DescribeInstancesInput \<Rightarrow> Duration \<Rightarrow> 'w \<Rightarrow> error option \<times> 'w"
  Now_UTC_RFC3339 :: "'w \<Rightarrow> string"

datatype call =
    DescribeImagesCall DescribeImagesInput
  | DescribeInstancesCall DescribeInstancesInput
  | CreateSnapshotCall CreateSnapshotInput
  | TerminateInstancesCall TerminateInstancesInput
  | RunInstancesCall RunInstancesInput
  | StopInstancesCall StopInstancesInput
  | StartInstancesCall StartInstancesInput
  | CreateTagsCall CreateTagsInput
  | InstanceRunningWaitCall DescribeInstancesInput Duration
  | InstanceStoppedWaitCall DescribeInstancesInput Duration

text \<open>The state the service runs in: the world of the client and the calls made so far.\<close>

record 'w run =
  world :: 'w
  calls :: "call list"

text \<open>One call: the client answers from the world, the call is appended to the log.\<close>

definition invoke :: "('i \<Rightarrow> 'w \<Rightarrow> 'r \<times> 'w) \<Rightarrow> ('i \<Rightarrow> call) \<Rightarrow> 'i \<Rightarrow> 'w run \<Rightarrow> 'r \<times> 'w run" where
  "invoke operation entry input s =
     (let (r, w) = operation input (world s)
      in (r, \<lparr>world = w, calls = calls s @ [entry input]\<rparr>))"

subsection \<open>The service\<close>

text \<open>\<^verbatim>\<open>GetAMIWithTag\<close> returns the pair of Go: the image id and the error (nil is \<open>None\<close>).\<close>

definition GetAMIWithTag :: "'w EC2ClientAPI \<Rightarrow> string \<Rightarrow> string \<Rightarrow> 'w run \<Rightarrow> (string \<times> error option) \<times> 'w run" where
  "GetAMIWithTag client tagKey tagValue s =
     (let input = DescribeImagesInput [Filter (Some (''tag:'' @ tagKey)) [tagValue]]
      in case invoke (DescribeImages client) DescribeImagesCall input s of
           (Inl err, s1) \<Rightarrow> (([], Some (Errorf_w ''describe images: '' err)), s1)
         | (Inr result, s1) \<Rightarrow>
             (case Images result of
                [] \<Rightarrow> (([], None), s1)
              | img # _ \<Rightarrow> ((ToString (ImageId img), None), s1)))"

definition TagAMI :: "'w EC2ClientAPI \<Rightarrow> string \<Rightarrow> string \<Rightarrow> string \<Rightarrow> 'w run \<Rightarrow> error option \<times> 'w run" where
  "TagAMI client amiID tagKey tagValue s =
     invoke (CreateTags client) CreateTagsCall
       (CreateTagsInput [amiID] [\<lparr>Key = Some tagKey, Value = Some tagValue\<rparr>]) s"

definition fetchEnabledInstances :: "'w EC2ClientAPI \<Rightarrow> string \<Rightarrow> 'w run \<Rightarrow> (Instance list \<times> error option) \<times> 'w run" where
  "fetchEnabledInstances client enabledValue s =
     (let input = DescribeInstancesInput [Filter (Some ''tag:ami-migrate'') [enabledValue]] []
      in case invoke (DescribeInstances client) DescribeInstancesCall input s of
           (Inl err, s1) \<Rightarrow> (([], Some err), s1)
         | (Inr resp, s1) \<Rightarrow> ((concat (map ReservationInstances (Reservations resp)), None), s1))"

text \<open>The loop of \<^verbatim>\<open>shouldMigrateInstance\<close> over the tags, with its \<^verbatim>\<open>break\<close>.\<close>

fun hasIfRunningTag :: "Tag list \<Rightarrow> bool" where
  "hasIfRunningTag [] = False"
| "hasIfRunningTag (tag # tags) =
     (if ToString (Key tag) = ''ami-migrate-if-running'' \<and> ToString (Value tag) = ''enabled''
      then True
      else hasIfRunningTag tags)"

definition shouldMigrateInstance :: "Instance \<Rightarrow> bool \<times> bool" where
  "shouldMigrateInstance instance =
     (let isRunning = (Name (State instance) = InstanceStateNameRunning)
      in if isRunning then (hasIfRunningTag (Tags instance), False) else (True, False))"

definition startInstance :: "'w EC2ClientAPI \<Rightarrow> Instance \<Rightarrow> 'w run \<Rightarrow> error option \<times> 'w run" where
  "startInstance client instance s =
     (case invoke (StartInstances client) StartInstancesCall
             (StartInstancesInput [ToString (InstanceId instance)]) s of
        (Some err, s1) \<Rightarrow> (Some err, s1)
      | (None, s1) \<Rightarrow>
          (let (r, w) = InstanceRunningWaiter_Wait client
                          (DescribeInstancesInput [] [ToString (InstanceId instance)]) (5 * Minute) (world s1)
           in (r, \<lparr>world = w, calls = calls s1 @
                 [InstanceRunningWaitCall (DescribeInstancesInput [] [ToString (InstanceId instance)]) (5 * Minute)]\<rparr>)))"

definition stopInstance :: "'w EC2ClientAPI \<Rightarrow> Instance \<Rightarrow> 'w run \<Rightarrow> error option \<times> 'w run" where
  "stopInstance client instance s =
     (case invoke (StopInstances client) StopInstancesCall
             (StopInstancesInput [ToString (InstanceId instance)]) s of
        (Some err, s1) \<Rightarrow> (Some err, s1)
      | (None, s1) \<Rightarrow>
          (let (r, w) = InstanceStoppedWaiter_Wait client
                          (DescribeInstancesInput [] [ToString (InstanceId instance)]) (5 * Minute) (world s1)
           in (r, \<lparr>world = w, calls = calls s1 @
                 [InstanceStoppedWaitCall (DescribeInstancesInput [] [ToString (InstanceId instance)]) (5 * Minute)]\<rparr>)))"

text \<open>The loop of \<^verbatim>\<open>copyTags\<close>: every tag but the status tag, in the order of the source.\<close>

fun copyTags_loop :: "Tag list \<Rightarrow> Tag list \<Rightarrow> Tag list" where
  "copyTags_loop tags [] = tags"
| "copyTags_loop tags (tag # rest) =
     (if ToString (Key tag) = ''ami-migrate-status''
      then copyTags_loop tags rest
      else copyTags_loop (tags @ [tag]) rest)"

definition copyTags :: "'w EC2ClientAPI \<Rightarrow> Instance \<Rightarrow> Instance \<Rightarrow> 'w run \<Rightarrow> error option \<times> 'w run" where
  "copyTags client oldInstance newInstance s =
     (let tags = copyTags_loop [] (Tags oldInstance)
      in invoke (CreateTags client) CreateTagsCall
           (CreateTagsInput [ToString (InstanceId newInstance)] tags) s)"

definition tagInstanceStatus :: "'w EC2ClientAPI \<Rightarrow> Instance \<Rightarrow> string \<Rightarrow> string \<Rightarrow> 'w run \<Rightarrow> error option \<times> 'w run" where
  "tagInstanceStatus client instance status message s =
     invoke (CreateTags client) CreateTagsCall
       (CreateTagsInput [ToString (InstanceId instance)]
          [\<lparr>Key = Some ''ami-migrate-status'', Value = Some status\<rparr>,
           \<lparr>Key = Some ''ami-migrate-message'', Value = Some message\<rparr>,
           \<lparr>Key = Some ''ami-migrate-timestamp'', Value = Some (Now_UTC_RFC3339 client (world s))\<rparr>]) s"

text \<open>
  The first loop of \<^verbatim>\<open>upgradeInstance\<close>: one snapshot for each mapping with an EBS
  device; the first error ends the loop and the function.
\<close>

fun upgradeInstance_snapshots :: "'w EC2ClientAPI \<Rightarrow> Instance \<Rightarrow> InstanceBlockDeviceMapping list \<Rightarrow> 'w run \<Rightarrow> error option \<times> 'w run" where
  "upgradeInstance_snapshots client instance [] s = (None, s)"
| "upgradeInstance_snapshots client instance (mapping # rest) s =
     (case Ebs mapping of
        None \<Rightarrow> upgradeInstance_snapshots client instance rest s
      | Some ebs \<Rightarrow>
          (case invoke (CreateSnapshot client) CreateSnapshotCall
                  (CreateSnapshotInput (VolumeId ebs)
                     (Some (''Backup before AMI migration for instance '' @ ToString (InstanceId instance)))) s of
             (Some err, s1) \<Rightarrow> (Some (Errorf_w ''create snapshot: '' err), s1)
           | (None, s1) \<Rightarrow> upgradeInstance_snapshots client instance rest s1))"

text \<open>
  \<^verbatim>\<open>upgradeInstance\<close>. The index \<^verbatim>\<open>runResult.Instances[0]\<close> is evaluated after the
  source is terminated; on an empty list it panics.
\<close>

definition upgradeInstance :: "'w EC2ClientAPI \<Rightarrow> string \<Rightarrow> Instance \<Rightarrow> 'w run \<Rightarrow> error option outcome \<times> 'w run" where
  "upgradeInstance client newAMI instance s =
     (case upgradeInstance_snapshots client instance (BlockDeviceMappings instance) s of
        (Some err, s1) \<Rightarrow> (Returns (Some err), s1)
      | (None, s1) \<Rightarrow>
     (case (if Name (State instance) = InstanceStateNameRunning
            then (case stopInstance client instance s1 of
                    (Some err, s2) \<Rightarrow> (Some (Errorf_w ''stop instance: '' err), s2)
                  | (None, s2) \<Rightarrow> (None, s2))
            else (None, s1)) of
        (Some err, s2) \<Rightarrow> (Returns (Some err), s2)
      | (None, s2) \<Rightarrow>
     (case invoke (RunInstances client) RunInstancesCall
             (RunInstancesInput (Some newAMI) (InstanceType instance) (Some 1) (Some 1)) s2 of
        (Inl err, s3) \<Rightarrow> (Returns (Some (Errorf_w ''run instances: '' err)), s3)
      | (Inr runResult, s3) \<Rightarrow>
     (case invoke (TerminateInstances client) TerminateInstancesCall
             (TerminateInstancesInput [ToString (InstanceId instance)]) s3 of
        (Some err, s4) \<Rightarrow> (Returns (Some (Errorf_w ''terminate instance: '' err)), s4)
      | (None, s4) \<Rightarrow>
     (case Instances runResult of
        [] \<Rightarrow> (Panics, s4)
      | newInstance # _ \<Rightarrow>
     (case copyTags client instance newInstance s4 of
        (Some err, s5) \<Rightarrow> (Returns (Some (Errorf_w ''copy tags: '' err)), s5)
      | (None, s5) \<Rightarrow> (Returns None, s5)))))))"

text \<open>
  The body of the goroutine that \<^verbatim>\<open>MigrateInstances\<close> starts for an instance, with the
  flag \<open>needsStart\<close> it closes over. It returns nothing; it ends normally or panics.
\<close>

definition migrateTask :: "'w EC2ClientAPI \<Rightarrow> string \<Rightarrow> Instance \<Rightarrow> bool \<Rightarrow> 'w run \<Rightarrow> unit outcome \<times> 'w run" where
  "migrateTask client newAMI inst needsStart s =
     (let (_, s1) = tagInstanceStatus client inst ''in-progress'' ''Starting migration'' s
      in case (if needsStart \<and> Name (State inst) \<noteq> InstanceStateNameRunning
               then startInstance client inst s1 else (None, s1)) of
           (Some err, s2) \<Rightarrow>
             (let (_, s3) = tagInstanceStatus client inst ''failed''
                              (Sprintf_v ''Failed to start instance: '' err) s2
              in (Returns (), s3))
         | (None, s2) \<Rightarrow>
     (case upgradeInstance client newAMI inst s2 of
        (Panics, s3) \<Rightarrow> (Panics, s3)
      | (Returns (Some err), s3) \<Rightarrow>
          (let (_, s4) = tagInstanceStatus client inst ''failed''
                           (Sprintf_v ''Failed to upgrade instance: '' err) s3
           in (Returns (), s4))
      | (Returns None, s3) \<Rightarrow>
     (case (if needsStart \<and> Name (State inst) \<noteq> InstanceStateNameRunning
            then stopInstance client inst s3 else (None, s3)) of
        (Some err, s4) \<Rightarrow>
          (let (_, s5) = tagInstanceStatus client inst ''warning''
                           (Sprintf_v ''Migration successful but failed to stop instance: '' err) s4
           in (Returns (), s5))
      | (None, s4) \<Rightarrow>
          (let (_, s5) = tagInstanceStatus client inst ''completed'' ''Migration completed successfully'' s4
           in (Returns (), s5)))))"

text \<open>
  The loop of \<^verbatim>\<open>MigrateInstances\<close> over the selected instances. An instance that is not
  to be migrated gets the status \<^verbatim>\<open>skipped\<close> and no goroutine; for any other the
  goroutine is started. The goroutines share nothing but the client and the operation
  waits for all of them; here each runs when it is started, which is one of the orders
  the scheduler may choose. What a goroutine does depends on the answers it receives
  only, and the properties below are proved for every client and every world, that is
  for whatever answers it receives. A panic in a goroutine ends the process.
\<close>

fun MigrateInstances_loop :: "'w EC2ClientAPI \<Rightarrow> string \<Rightarrow> Instance list \<Rightarrow> 'w run \<Rightarrow> unit outcome \<times> 'w run" where
  "MigrateInstances_loop client newAMI [] s = (Returns (), s)"
| "MigrateInstances_loop client newAMI (instance # rest) s =
     (let (shouldMigrate, needsStart) = shouldMigrateInstance instance
      in if \<not> shouldMigrate
         then (let (_, s1) = tagInstanceStatus client instance ''skipped''
                               ''Instance state or tags do not meet migration criteria'' s
               in MigrateInstances_loop client newAMI rest s1)
         else (case migrateTask client newAMI instance needsStart s of
                 (Panics, s1) \<Rightarrow> (Panics, s1)
               | (Returns _, s1) \<Rightarrow> MigrateInstances_loop client newAMI rest s1))"

definition MigrateInstances :: "'w EC2ClientAPI \<Rightarrow> string \<Rightarrow> string \<Rightarrow> string \<Rightarrow> 'w run \<Rightarrow> error option outcome \<times> 'w run" where
  "MigrateInstances client oldAMI newAMI enabledValue s =
     (case fetchEnabledInstances client enabledValue s of
        ((_, Some err), s1) \<Rightarrow> (Returns (Some (Errorf_w ''fetch instances: '' err)), s1)
      | ((instances, None), s1) \<Rightarrow>
          (if length instances = 0 then (Returns None, s1)
           else (case MigrateInstances_loop client newAMI instances s1 of
                   (Panics, s2) \<Rightarrow> (Panics, s2)
                 | (Returns _, s2) \<Rightarrow> (Returns None, s2))))"

subsection \<open>Reading the log\<close>

text \<open>The calls made between two states of a run.\<close>

definition issued :: "'w run \<Rightarrow> 'w run \<Rightarrow> call list \<Rightarrow> bool" where
  "issued s s' cs \<longleftrightarrow> calls s' = calls s @ cs"

text \<open>Every call made between two states of a run satisfies \<open>Q\<close>.\<close>

definition issues :: "(call \<Rightarrow> bool) \<Rightarrow> 'w run \<Rightarrow> 'w run \<Rightarrow> bool" where
  "issues Q s s' \<longleftrightarrow> (\<exists>cs. issued s s' cs \<and> list_all Q cs)"

text \<open>
  The audit triple as \<^verbatim>\<open>tagInstanceStatus\<close> writes it: the three tags, in this order,
  with the given status, message and timestamp.
\<close>

definition auditTags :: "string \<Rightarrow> string \<Rightarrow> string \<Rightarrow> Tag list" where
  "auditTags status message timestamp =
     [\<lparr>Key = Some ''ami-migrate-status'', Value = Some status\<rparr>,
      \<lparr>Key = Some ''ami-migrate-message'', Value = Some message\<rparr>,
      \<lparr>Key = Some ''ami-migrate-timestamp'', Value = Some timestamp\<rparr>]"

text \<open>A call that writes an audit triple on the instance with the given id.\<close>

fun isAudit :: "string \<Rightarrow> string \<Rightarrow> string \<Rightarrow> call \<Rightarrow> bool" where
  "isAudit instanceId status message (CreateTagsCall (CreateTagsInput resources tags)) =
     (resources = [instanceId] \<and>
      (case tags of
         [t1, t2, t3] \<Rightarrow>
           t1 = \<lparr>Key = Some ''ami-migrate-status'', Value = Some status\<rparr> \<and>
           t2 = \<lparr>Key = Some ''ami-migrate-message'', Value = Some message\<rparr> \<and>
           Key t3 = Some ''ami-migrate-timestamp'' \<and> Value t3 \<noteq> None
       | _ \<Rightarrow> False))"
| "isAudit instanceId status message _ = False"

text \<open>The calls that change something at the provider: every call but the describe calls.\<close>

fun isMutation :: "call \<Rightarrow> bool" where
  "isMutation (DescribeImagesCall _) = False"
| "isMutation (DescribeInstancesCall _) = False"
| "isMutation (InstanceRunningWaitCall _ _) = False"
| "isMutation (InstanceStoppedWaitCall _ _) = False"
| "isMutation _ = True"

fun isStartInstances :: "call \<Rightarrow> bool" where
  "isStartInstances (StartInstancesCall _) = True"
| "isStartInstances _ = False"

fun isStopInstances :: "call \<Rightarrow> bool" where
  "isStopInstances (StopInstancesCall _) = True"
| "isStopInstances _ = False"

fun isRunInstances :: "call \<Rightarrow> bool" where
  "isRunInstances (RunInstancesCall _) = True"
| "isRunInstances _ = False"

fun isCreateSnapshot :: "call \<Rightarrow> bool" where
  "isCreateSnapshot (CreateSnapshotCall _) = True"
| "isCreateSnapshot _ = False"

text \<open>From the first request to launch an instance on, no request to stop one is made.\<close>

definition noStopAfterLaunch :: "call list \<Rightarrow> bool" where
  "noStopAfterLaunch cs \<longleftrightarrow> filter isStopInstances (dropWhile (\<lambda>c. \<not> isRunInstances c) cs) = []"

text \<open>
  The status values a tag write carries: for a call that writes tags, the values of the
  tags whose key is the status key.
\<close>

fun statusValues :: "call \<Rightarrow> string list" where
  "statusValues (CreateTagsCall (CreateTagsInput resources tags)) =
     map (\<lambda>t. ToString (Value t)) (filter (\<lambda>t. ToString (Key t) = ''ami-migrate-status'') tags)"
| "statusValues _ = []"

definition statusSet :: "string set" where
  "statusSet = {''skipped'', ''in-progress'', ''failed'', ''warning'', ''completed''}"


subsection \<open>Concrete providers\<close>

text \<open>
  A provider without state of its own, for running the service on concrete inputs. It
  describes the given instances, answers each snapshot request as \<open>snapshotAnswer\<close>
  says for the volume, launches the given instances, and lets every other call succeed.
  Its clock stands still.
\<close>

definition stubClient :: "Image list \<Rightarrow> Instance list \<Rightarrow> (string option \<Rightarrow> error option) \<Rightarrow> Instance list \<Rightarrow> unit EC2ClientAPI" where
  "stubClient images described snapshotAnswer launched =
     \<lparr>DescribeImages = (\<lambda>input w. (Inr \<lparr>Images = images\<rparr>, w)),
      DescribeInstances = (\<lambda>input w. (Inr \<lparr>Reservations = [\<lparr>ReservationInstances = described\<rparr>]\<rparr>, w)),
      CreateSnapshot = (\<lambda>input w. (case input of CreateSnapshotInput volume description \<Rightarrow> snapshotAnswer volume, w)),
      TerminateInstances = (\<lambda>input w. (None, w)),
      RunInstances = (\<lambda>input w. (Inr \<lparr>Instances = launched\<rparr>, w)),
      StopInstances = (\<lambda>input w. (None, w)),
      StartInstances = (\<lambda>input w. (None, w)),
      CreateTags = (\<lambda>input w. (None, w)),
      InstanceRunningWaiter_Wait = (\<lambda>input maxWait w. (None, w)),
      InstanceStoppedWaiter_Wait = (\<lambda>input maxWait w. (None, w)),
      Now_UTC_RFC3339 = (\<lambda>w. ''2024-05-01T12:00:00Z'')\<rparr>"

definition start :: "unit run" where
  "start = \<lparr>world = (), calls = []\<rparr>"

text \<open>
  The instances of the scenarios: \<^verbatim>\<open>i-1\<close> runs and carries the primary marker only;
  \<^verbatim>\<open>i-2\<close> is stopped, carries the primary marker and an old status, and has the
  volumes \<^verbatim>\<open>vol-a\<close> and \<^verbatim>\<open>vol-b\<close>; \<^verbatim>\<open>i-new\<close> is what the provider launches.
\<close>

definition i1 :: Instance where
  "i1 = \<lparr>InstanceId = Some ''i-1'', State = \<lparr>Name = InstanceStateNameRunning\<rparr>,
          InstanceType = ''t3.micro'', BlockDeviceMappings = [],
          Tags = [\<lparr>Key = Some ''ami-migrate'', Value = Some ''enabled''\<rparr>]\<rparr>"

definition i2 :: Instance where
  "i2 = \<lparr>InstanceId = Some ''i-2'', State = \<lparr>Name = InstanceStateNameStopped\<rparr>,
          InstanceType = ''t3.large'',
          BlockDeviceMappings =
            [\<lparr>DeviceName = Some ''/dev/sda1'', Ebs = Some \<lparr>VolumeId = Some ''vol-a''\<rparr>\<rparr>,
             \<lparr>DeviceName = Some ''/dev/sdb'', Ebs = Some \<lparr>VolumeId = Some ''vol-b''\<rparr>\<rparr>],
          Tags = [\<lparr>Key = Some ''ami-migrate'', Value = Some ''enabled''\<rparr>,
                  \<lparr>Key = Some ''ami-migrate-status'', Value = Some ''failed''\<rparr>,
                  \<lparr>Key = Some ''Owner'', Value = Some ''alice''\<rparr>]\<rparr>"

definition inew :: Instance where
  "inew = \<lparr>InstanceId = Some ''i-new'', State = \<lparr>Name = InstanceStateNamePending\<rparr>,
            InstanceType = ''t3.large'', BlockDeviceMappings = [], Tags = []\<rparr>"

text \<open>An image the provider may list.\<close>

definition ubuntu :: Image where
  "ubuntu = \<lparr>ImageId = Some ''ami-0abc''\<rparr>"

definition allSucceed :: "string option \<Rightarrow> error option" where
  "allSucceed volume = None"

definition volBFails :: "string option \<Rightarrow> error option" where
  "volBFails volume = (if volume = Some ''vol-b'' then Some (errorString ''SnapshotCreationPerVolumeRateExceeded'') else None)"

text \<open>A provider whose describe call for instances fails.\<close>

definition failingDescribe :: "unit EC2ClientAPI" where
  "failingDescribe =
     (stubClient [] [] allSucceed [inew])
       \<lparr>DescribeInstances := (\<lambda>input w. (Inl (errorString ''RequestLimitExceeded''), w))\<rparr>"

text \<open>Providers that refuse to start, or to stop, an instance.\<close>

definition startFails :: "unit EC2ClientAPI" where
  "startFails =
     (stubClient [] [i2] allSucceed [inew])
       \<lparr>StartInstances := (\<lambda>input w. (Some (errorString ''IncorrectInstanceState''), w))\<rparr>"

definition stopFails :: "unit EC2ClientAPI" where
  "stopFails =
     (stubClient [] [i2] allSucceed [inew])
       \<lparr>StopInstances := (\<lambda>input w. (Some (errorString ''UnsupportedOperation''), w))\<rparr>"

subsection \<open>The words of the specification\<close>

text \<open>The instance carries a tag with the given key and value.\<close>

definition carriesTag :: "Instance \<Rightarrow> string \<Rightarrow> string \<Rightarrow> bool" where
  "carriesTag instance k v \<longleftrightarrow> (\<exists>tag \<in> set (Tags instance). Key tag = Some k \<and> Value tag = Some v)"

text \<open>
  The tags a replacement receives, as the specification words it: the tags of the
  source, in their order, without those whose key is the status key.
\<close>

definition carriedForward :: "Tag list \<Rightarrow> Tag list" where
  "carriedForward tags = filter (\<lambda>tag. Key tag \<noteq> Some ''ami-migrate-status'') tags"

section \<open>Properties\<close>

subsection \<open>Calls and the log\<close>

lemma invoke_eq:
  "invoke operation entry input s =
     (fst (operation input (world s)),
      \<lparr>world = snd (operation input (world s)), calls = calls s @ [entry input]\<rparr>)"
  by (simp add: invoke_def split: prod.splits)

lemma ToString_eq_nonempty: "str \<noteq> [] \<Longrightarrow> ToString x = str \<longleftrightarrow> x = Some str"
  by (cases x) auto

lemma issued_refl: "issued s s []"
  by (simp add: issued_def)


subsection \<open>The image lookup\<close>

text \<open>
  C10. When the provider answers the describe call of \<^verbatim>\<open>GetAMIWithTag\<close> without an
  error, the error returned is nil whether or not an image matched: with no image the
  identifier returned is the empty string, with some image it is the identifier of the
  first. Only the identifier tells the two apart.
\<close>

theorem GetAMIWithTag_no_match:
  assumes "DescribeImages client (DescribeImagesInput [Filter (Some (''tag:'' @ tagKey)) [tagValue]]) (world s) = (Inr result, w)"
  shows "fst (GetAMIWithTag client tagKey tagValue s) =
           (case Images result of
              [] \<Rightarrow> ([], None)
            | img # _ \<Rightarrow> (ToString (ImageId img), None))"
  using assms by (simp add: GetAMIWithTag_def invoke_eq split: list.splits)

theorem GetAMIWithTag_no_match_witness:
  "fst (GetAMIWithTag (stubClient [] [] allSucceed []) ''Version'' ''latest'' start) = ([], None) \<and>
   fst (GetAMIWithTag (stubClient [ubuntu] [] allSucceed []) ''Version'' ''latest'' start) = (''ami-0abc'', None)"
  using GetAMIWithTag_no_match [of "stubClient [] [] allSucceed []" "''Version''" "''latest''" start "\<lparr>Images = []\<rparr>" "()"]
        GetAMIWithTag_no_match [of "stubClient [ubuntu] [] allSucceed []" "''Version''" "''latest''" start "\<lparr>Images = [ubuntu]\<rparr>" "()"]
  by (simp add: stubClient_def start_def ubuntu_def)

subsection \<open>The eligibility decision\<close>

lemma hasIfRunningTag_iff:
  "hasIfRunningTag tags \<longleftrightarrow>
     (\<exists>tag \<in> set tags. Key tag = Some ''ami-migrate-if-running'' \<and> Value tag = Some ''enabled'')"
  by (induction tags) (auto simp: ToString_eq_nonempty)

text \<open>
  C2. \<^verbatim>\<open>shouldMigrateInstance\<close> returns the pair (eligible, needs a transient start). For
  a running instance the instance is eligible exactly when it carries the tag
  \<^verbatim>\<open>ami-migrate-if-running\<close> with the value \<^verbatim>\<open>enabled\<close>; in any other state it is
  eligible whatever its tags are. The second component is false in both cases.
\<close>

theorem shouldMigrateInstance_decision:
  "shouldMigrateInstance instance =
     (if Name (State instance) = InstanceStateNameRunning
      then (carriesTag instance ''ami-migrate-if-running'' ''enabled'', False)
      else (True, False))"
  by (simp add: shouldMigrateInstance_def carriesTag_def hasIfRunningTag_iff)

theorem shouldMigrateInstance_decision_witness:
  "shouldMigrateInstance i1 = (False, False) \<and> shouldMigrateInstance i2 = (True, False)"
  using shouldMigrateInstance_decision [of i1] shouldMigrateInstance_decision [of i2]
  by (simp add: i1_def i2_def carriesTag_def)

subsection \<open>The tag copy\<close>

lemma copyTags_loop_filter:
  "copyTags_loop acc tags = acc @ filter (\<lambda>tag. ToString (Key tag) \<noteq> ''ami-migrate-status'') tags"
  by (induction tags arbitrary: acc) simp_all

lemma copyTags_loop_carriedForward: "copyTags_loop [] tags = carriedForward tags"
  by (simp add: copyTags_loop_filter carriedForward_def ToString_eq_nonempty)

lemma copyTags_eq:
  "copyTags client oldInstance newInstance s =
     invoke (CreateTags client) CreateTagsCall
       (CreateTagsInput [ToString (InstanceId newInstance)] (carriedForward (Tags oldInstance))) s"
  by (simp add: copyTags_def copyTags_loop_carriedForward)

text \<open>
  C4. \<^verbatim>\<open>copyTags\<close> makes one call: it writes on the new instance the tags of the source
  without those whose key is \<^verbatim>\<open>ami-migrate-status\<close>, each other tag as it is and in
  the order of the source, and returns the provider's answer. So no tag written has the
  status key, and every tag of the source with another key is written.
\<close>

theorem copyTags_all_but_status:
  "copyTags client oldInstance newInstance s =
     (fst (CreateTags client
             (CreateTagsInput [ToString (InstanceId newInstance)] (carriedForward (Tags oldInstance))) (world s)),
      \<lparr>world = snd (CreateTags client
             (CreateTagsInput [ToString (InstanceId newInstance)] (carriedForward (Tags oldInstance))) (world s)),
       calls = calls s @
         [CreateTagsCall (CreateTagsInput [ToString (InstanceId newInstance)] (carriedForward (Tags oldInstance)))]\<rparr>)
   \<and> (\<forall>tag \<in> set (carriedForward (Tags oldInstance)). Key tag \<noteq> Some ''ami-migrate-status'')
   \<and> (\<forall>tag \<in> set (Tags oldInstance).
         Key tag \<noteq> Some ''ami-migrate-status'' \<longrightarrow>
         tag \<in> set (carriedForward (Tags oldInstance)) \<and>
         count_list (carriedForward (Tags oldInstance)) tag = count_list (Tags oldInstance) tag)"
proof -
  have "count_list (filter P xs) x = (if P x then count_list xs x else 0)" for P and xs :: "Tag list" and x
    by (induction xs) auto
  then show ?thesis
    by (simp add: copyTags_eq invoke_eq carriedForward_def)
qed

theorem copyTags_all_but_status_witness:
  "copyTags (stubClient [] [i2] allSucceed [inew]) i2 inew start =
     (None, \<lparr>world = (), calls =
        [CreateTagsCall (CreateTagsInput [''i-new'']
           [\<lparr>Key = Some ''ami-migrate'', Value = Some ''enabled''\<rparr>,
            \<lparr>Key = Some ''Owner'', Value = Some ''alice''\<rparr>])]\<rparr>)"
  using copyTags_all_but_status [of "stubClient [] [i2] allSucceed [inew]" i2 inew start]
  by (simp add: stubClient_def i2_def inew_def start_def carriedForward_def)

subsection \<open>Which calls a run makes\<close>

lemma issues_refl: "issues Q s s"
  by (auto simp: issues_def issued_def)

lemma issues_trans: "issues Q s s1 \<Longrightarrow> issues Q s1 s2 \<Longrightarrow> issues Q s s2"
  by (auto simp: issues_def issued_def)

lemma issues_invoke: "Q (entry input) \<Longrightarrow> invoke operation entry input s = (r, s') \<Longrightarrow> issues Q s s'"
  by (auto simp: issues_def issued_def invoke_eq)

lemma tagInstanceStatus_eq:
  "tagInstanceStatus client instance status message s =
     invoke (CreateTags client) CreateTagsCall
       (CreateTagsInput [ToString (InstanceId instance)]
          (auditTags status message (Now_UTC_RFC3339 client (world s)))) s"
  by (simp add: tagInstanceStatus_def auditTags_def)

lemma tagInstanceStatus_issues:
  assumes "\<And>ts. Q (CreateTagsCall (CreateTagsInput [ToString (InstanceId instance)] (auditTags status message ts)))"
    and "tagInstanceStatus client instance status message s = (r, s')"
  shows "issues Q s s'"
  using assms by (auto simp: tagInstanceStatus_eq intro: issues_invoke)

lemma snapshots_issues:
  assumes "\<And>input. Q (CreateSnapshotCall input)"
    and "upgradeInstance_snapshots client instance mappings s = (r, s')"
  shows "issues Q s s'"
  using assms(2)
proof (induction mappings arbitrary: s)
  case Nil
  then show ?case by (simp add: issues_refl)
next
  case (Cons mapping rest)
  show ?case
  proof (cases "Ebs mapping")
    case None
    with Cons show ?thesis by simp
  next
    case (Some ebs)
    obtain a s1 where inv: "invoke (CreateSnapshot client) CreateSnapshotCall
                  (CreateSnapshotInput (VolumeId ebs)
                     (Some (''Backup before AMI migration for instance '' @ ToString (InstanceId instance)))) s = (a, s1)"
      by fastforce
    have step: "issues Q s s1" using inv assms(1) by (rule issues_invoke[rotated])
    show ?thesis
    proof (cases a)
      case None
      with Cons.prems Some inv have "upgradeInstance_snapshots client instance rest s1 = (r, s')" by simp
      then have "issues Q s1 s'" by (rule Cons.IH)
      with step show ?thesis by (rule issues_trans)
    next
      case (Some err)
      with Cons.prems \<open>Ebs mapping = Some ebs\<close> inv have "s' = s1" by simp
      with step show ?thesis by simp
    qed
  qed
qed

lemma stopInstance_issues:
  assumes "\<And>input. Q (StopInstancesCall input)" and "\<And>input d. Q (InstanceStoppedWaitCall input d)"
    and "stopInstance client instance s = (r, s')"
  shows "issues Q s s'"
  using assms
  by (auto simp: stopInstance_def invoke_eq issues_def issued_def split: option.splits prod.splits)

lemma startInstance_issues:
  assumes "\<And>input. Q (StartInstancesCall input)" and "\<And>input d. Q (InstanceRunningWaitCall input d)"
    and "startInstance client instance s = (r, s')"
  shows "issues Q s s'"
  using assms
  by (auto simp: startInstance_def invoke_eq issues_def issued_def split: option.splits prod.splits)

lemma issues_calls: "issues Q s s' \<Longrightarrow> \<exists>cs. calls s' = calls s @ cs \<and> list_all Q cs"
  by (simp add: issues_def issued_def)

lemma upgradeInstance_issues:
  assumes snap: "\<And>input. Q (CreateSnapshotCall input)"
    and stop: "Name (State instance) = InstanceStateNameRunning \<Longrightarrow>
                 (\<forall>input. Q (StopInstancesCall input)) \<and> (\<forall>input d. Q (InstanceStoppedWaitCall input d))"
    and run: "\<And>input. Q (RunInstancesCall input)"
    and "term": "\<And>input. Q (TerminateInstancesCall input)"
    and copy: "\<And>resources. Q (CreateTagsCall (CreateTagsInput resources (carriedForward (Tags instance))))"
    and eq: "upgradeInstance client newAMI instance s = (r, s')"
  shows "issues Q s s'"
proof -
  obtain r1 s1 where s1: "upgradeInstance_snapshots client instance (BlockDeviceMappings instance) s = (r1, s1)"
    by fastforce
  from snapshots_issues [of Q, OF snap s1]
  obtain cs where cs: "calls s1 = calls s @ cs" "list_all Q cs"
    by (auto dest: issues_calls)
  show ?thesis
    using eq s1 cs stop run "term" copy
    unfolding upgradeInstance_def
    by (auto simp: issues_def issued_def invoke_eq copyTags_eq stopInstance_def
             split: option.splits prod.splits sum.splits list.splits if_splits)
qed

lemma shouldMigrateInstance_snd: "snd (shouldMigrateInstance instance) = False"
  by (simp add: shouldMigrateInstance_def)

lemma migrateTask_issues:
  assumes audit: "\<And>status message ts. status \<in> statusSet \<Longrightarrow>
                    Q (CreateTagsCall (CreateTagsInput [ToString (InstanceId inst)] (auditTags status message ts)))"
    and snap: "\<And>input. Q (CreateSnapshotCall input)"
    and stop: "Name (State inst) = InstanceStateNameRunning \<Longrightarrow>
                 (\<forall>input. Q (StopInstancesCall input)) \<and> (\<forall>input d. Q (InstanceStoppedWaitCall input d))"
    and run: "\<And>input. Q (RunInstancesCall input)"
    and "term": "\<And>input. Q (TerminateInstancesCall input)"
    and copy: "\<And>resources. Q (CreateTagsCall (CreateTagsInput resources (carriedForward (Tags inst))))"
    and eq: "migrateTask client newAMI inst False s = (r, s')"
  shows "issues Q s s'"
proof -
  obtain r1 s1 where s1: "tagInstanceStatus client inst ''in-progress'' ''Starting migration'' s = (r1, s1)"
    by fastforce
  have i1: "issues Q s s1"
    using s1 by (rule tagInstanceStatus_issues [rotated]) (rule audit, simp add: statusSet_def)
  obtain r2 s2 where s2: "upgradeInstance client newAMI inst s1 = (r2, s2)"
    by fastforce
  have i2: "issues Q s1 s2"
    using snap stop run "term" copy s2 by (rule upgradeInstance_issues)
  have i12: "issues Q s s2" using i1 i2 by (rule issues_trans)
  show ?thesis
  proof (cases r2)
    case Panics
    with eq s1 s2 have "s' = s2" by (simp add: migrateTask_def)
    with i12 show ?thesis by simp
  next
    case (Returns e)
    show ?thesis
    proof (cases e)
      case None
      obtain r3 s3 where s3: "tagInstanceStatus client inst ''completed'' ''Migration completed successfully'' s2 = (r3, s3)"
        by fastforce
      have "issues Q s2 s3"
        using s3 by (rule tagInstanceStatus_issues [rotated]) (rule audit, simp add: statusSet_def)
      moreover from eq s1 s2 s3 Returns None have "s' = s3" by (simp add: migrateTask_def)
      ultimately show ?thesis using i12 by (auto intro: issues_trans)
    next
      case (Some err)
      obtain r3 s3 where s3: "tagInstanceStatus client inst ''failed'' (Sprintf_v ''Failed to upgrade instance: '' err) s2 = (r3, s3)"
        by fastforce
      have "issues Q s2 s3"
        using s3 by (rule tagInstanceStatus_issues [rotated]) (rule audit, simp add: statusSet_def)
      moreover from eq s1 s2 s3 Returns Some have "s' = s3" by (simp add: migrateTask_def)
      ultimately show ?thesis using i12 by (auto intro: issues_trans)
    qed
  qed
qed

lemma MigrateInstances_loop_issues:
  assumes audit: "\<And>(inst :: Instance) status message ts. status \<in> statusSet \<Longrightarrow>
                    Q (CreateTagsCall (CreateTagsInput [ToString (InstanceId inst)] (auditTags status message ts)))"
    and snap: "\<And>input. Q (CreateSnapshotCall input)"
    and stop: "\<And>input. Q (StopInstancesCall input)"
    and wait: "\<And>input d. Q (InstanceStoppedWaitCall input d)"
    and run: "\<And>input. Q (RunInstancesCall input)"
    and "term": "\<And>input. Q (TerminateInstancesCall input)"
    and copy: "\<And>resources tags. Q (CreateTagsCall (CreateTagsInput resources (carriedForward tags)))"
    and eq: "MigrateInstances_loop client newAMI instances s = (r, s')"
  shows "issues Q s s'"
  using eq
proof (induction instances arbitrary: s)
  case Nil
  then show ?case by (simp add: issues_refl)
next
  case (Cons x rest)
  show ?case
  proof (cases "fst (shouldMigrateInstance x)")
    case False
    obtain r1 s1 where s1: "tagInstanceStatus client x ''skipped''
                               ''Instance state or tags do not meet migration criteria'' s = (r1, s1)"
      by fastforce
    have "issues Q s s1"
      using s1 by (rule tagInstanceStatus_issues [rotated]) (rule audit, simp add: statusSet_def)
    moreover from Cons.prems False s1 have "MigrateInstances_loop client newAMI rest s1 = (r, s')"
      by (simp split: prod.splits)
    then have "issues Q s1 s'" by (rule Cons.IH)
    ultimately show ?thesis by (rule issues_trans)
  next
    case True
    obtain r1 s1 where s1: "migrateTask client newAMI x False s = (r1, s1)"
      by fastforce
    have i1: "issues Q s s1"
      using s1 by (rule migrateTask_issues [rotated -1]) (simp_all add: audit snap stop wait run "term" copy)
    show ?thesis
    proof (cases r1)
      case Panics
      with Cons.prems True s1 have "s' = s1"
        by (simp add: shouldMigrateInstance_def split: prod.splits if_splits)
      with i1 show ?thesis by simp
    next
      case (Returns u)
      with Cons.prems True s1 have "MigrateInstances_loop client newAMI rest s1 = (r, s')"
        by (simp add: shouldMigrateInstance_def split: prod.splits if_splits)
      then have "issues Q s1 s'" by (rule Cons.IH)
      with i1 show ?thesis by (rule issues_trans)
    qed
  qed
qed

lemma MigrateInstances_issues:
  assumes describe: "\<And>input. Q (DescribeInstancesCall input)"
    and audit: "\<And>(inst :: Instance) status message ts. status \<in> statusSet \<Longrightarrow>
                    Q (CreateTagsCall (CreateTagsInput [ToString (InstanceId inst)] (auditTags status message ts)))"
    and snap: "\<And>input. Q (CreateSnapshotCall input)"
    and stop: "\<And>input. Q (StopInstancesCall input)"
    and wait: "\<And>input d. Q (InstanceStoppedWaitCall input d)"
    and run: "\<And>input. Q (RunInstancesCall input)"
    and "term": "\<And>input. Q (TerminateInstancesCall input)"
    and copy: "\<And>resources tags. Q (CreateTagsCall (CreateTagsInput resources (carriedForward tags)))"
    and eq: "MigrateInstances client oldAMI newAMI enabledValue s = (r, s')"
  shows "issues Q s s'"
proof -
  obtain instances e s1 where s1: "fetchEnabledInstances client enabledValue s = ((instances, e), s1)"
    by (metis surj_pair)
  have i1: "issues Q s s1"
    using s1 describe
    by (auto simp: fetchEnabledInstances_def Let_def invoke_eq issues_def issued_def split: sum.splits)
  obtain r2 s2 where s2: "MigrateInstances_loop client newAMI instances s1 = (r2, s2)"
    by fastforce
  have i2: "issues Q s1 s2"
    using audit snap stop wait run "term" copy s2 by (rule MigrateInstances_loop_issues)
  have "s' = s1 \<or> s' = s2"
    using eq s1 s2 by (auto simp: MigrateInstances_def split: option.splits if_splits outcome.splits)
  with i1 i2 show ?thesis by (auto intro: issues_trans)
qed

subsection \<open>What the orchestrator returns\<close>

lemma upgradeInstance_returns:
  assumes launch: "\<forall>input w out. fst (RunInstances client input w) = Inr out \<longrightarrow> Instances out \<noteq> []"
  shows "upgradeInstance client newAMI instance s \<noteq> (Panics, s')"
  using launch unfolding upgradeInstance_def
  by (auto simp: invoke_eq split: option.splits prod.splits sum.splits list.splits if_splits)

lemma migrateTask_returns:
  assumes launch: "\<forall>input w out. fst (RunInstances client input w) = Inr out \<longrightarrow> Instances out \<noteq> []"
  shows "fst (migrateTask client newAMI inst needsStart s) = Returns ()"
  unfolding migrateTask_def
  by (simp add: upgradeInstance_returns [OF launch] split: option.splits prod.splits outcome.splits)

lemma MigrateInstances_loop_returns:
  assumes launch: "\<forall>input w out. fst (RunInstances client input w) = Inr out \<longrightarrow> Instances out \<noteq> []"
  shows "fst (MigrateInstances_loop client newAMI instances s) = Returns ()"
proof (induction instances arbitrary: s)
  case Nil
  show ?case by simp
next
  case (Cons x rest)
  show ?case
    using migrateTask_returns [OF launch, of newAMI x "snd (shouldMigrateInstance x)" s] Cons.IH
    by (auto split: prod.splits outcome.splits)
qed

text \<open>
  Let every launch the provider answers without an error carry at least one instance.
  Then \<^verbatim>\<open>MigrateInstances\<close> returns, and what it returns depends on the describe call
  of the selection alone: when that call fails with \<open>err\<close>, the error \<open>err\<close> wrapped
  with the text \<^verbatim>\<open>fetch instances: \<close>; when it succeeds, nil, whatever the provider
  answers to the calls of the tasks.
\<close>

lemma MigrateInstances_returns:
  assumes launch: "\<forall>input w out. fst (RunInstances client input w) = Inr out \<longrightarrow> Instances out \<noteq> []"
  shows "fst (MigrateInstances client oldAMI newAMI enabledValue s) =
           (case fst (DescribeInstances client
                        (DescribeInstancesInput [Filter (Some ''tag:ami-migrate'') [enabledValue]] []) (world s)) of
              Inl err \<Rightarrow> Returns (Some (Errorf_w ''fetch instances: '' err))
            | Inr resp \<Rightarrow> Returns None)"
proof (cases "fst (DescribeInstances client
                        (DescribeInstancesInput [Filter (Some ''tag:ami-migrate'') [enabledValue]] []) (world s))")
  case (Inl err)
  then show ?thesis
    by (simp add: MigrateInstances_def fetchEnabledInstances_def Let_def invoke_eq)
next
  case (Inr resp)
  then show ?thesis
    using MigrateInstances_loop_returns [OF launch]
    by (auto simp: MigrateInstances_def fetchEnabledInstances_def Let_def invoke_eq dest: arg_cong [where f = fst]
             split: prod.splits outcome.splits)
qed

lemma MigrateInstances_returns_example:
  "fst (MigrateInstances (stubClient [] [i1, i2] volBFails [inew]) ''ami-old'' ''ami-new'' ''enabled'' start) = Returns None \<and>
   fst (MigrateInstances failingDescribe ''ami-old'' ''ami-new'' ''enabled'' start) =
     Returns (Some (wrapError ''fetch instances: RequestLimitExceeded'' (errorString ''RequestLimitExceeded'')))"
proof -
  have a: "\<forall>input w out. fst (RunInstances (stubClient [] [i1, i2] volBFails [inew]) input w) = Inr out \<longrightarrow> Instances out \<noteq> []"
    by (auto simp: stubClient_def)
  have b: "\<forall>input w out. fst (RunInstances failingDescribe input w) = Inr out \<longrightarrow> Instances out \<noteq> []"
    by (simp add: stubClient_def failingDescribe_def)
  show ?thesis
    using MigrateInstances_returns [OF a, of "''ami-old''" "''ami-new''" "''enabled''" start]
          MigrateInstances_returns [OF b, of "''ami-old''" "''ami-new''" "''enabled''" start]
    by (simp add: stubClient_def failingDescribe_def Errorf_w_def)
qed


text \<open>
  C1. The selection succeeding is not enough for \<^verbatim>\<open>MigrateInstances\<close> to return nil.
  Here the query returns the stopped instance \<^verbatim>\<open>i-2\<close> and every call succeeds, the
  launch too, but the launch carries no instance. The task writes \<^verbatim>\<open>in-progress\<close>,
  takes the two snapshots, requests the launch and terminates the source; then the index
  \<^verbatim>\<open>runResult.Instances[0]\<close> panics in the goroutine. Nothing recovers the panic, so
  the operation does not return: neither nil nor an error.
\<close>

theorem MigrateInstances_launch_without_instance:
  "MigrateInstances (stubClient [] [i2] allSucceed []) ''ami-old'' ''ami-new'' ''enabled'' start =
     (Panics,
      \<lparr>world = (), calls =
        [DescribeInstancesCall (DescribeInstancesInput [Filter (Some ''tag:ami-migrate'') [''enabled'']] []),
         CreateTagsCall (CreateTagsInput [''i-2''] (auditTags ''in-progress'' ''Starting migration'' ''2024-05-01T12:00:00Z'')),
         CreateSnapshotCall (CreateSnapshotInput (Some ''vol-a'') (Some ''Backup before AMI migration for instance i-2'')),
         CreateSnapshotCall (CreateSnapshotInput (Some ''vol-b'') (Some ''Backup before AMI migration for instance i-2'')),
         RunInstancesCall (RunInstancesInput (Some ''ami-new'') ''t3.large'' (Some 1) (Some 1)),
         TerminateInstancesCall (TerminateInstancesInput [''i-2''])]\<rparr>)"
  by (simp add: MigrateInstances_def fetchEnabledInstances_def Let_def invoke_eq stubClient_def start_def i2_def
        allSucceed_def shouldMigrateInstance_def migrateTask_def upgradeInstance_def tagInstanceStatus_eq auditTags_def)

subsection \<open>An empty selection\<close>

text \<open>
  C6. When the describe call of the selection succeeds and lists no instance,
  \<^verbatim>\<open>MigrateInstances\<close> returns nil and that describe call is the only call it has
  made: no call that changes anything at the provider.
\<close>

theorem MigrateInstances_none_selected:
  assumes "DescribeInstances client
             (DescribeInstancesInput [Filter (Some ''tag:ami-migrate'') [enabledValue]] []) (world s) = (Inr resp, w)"
    and "concat (map ReservationInstances (Reservations resp)) = []"
  shows "MigrateInstances client oldAMI newAMI enabledValue s =
           (Returns None,
            \<lparr>world = w,
             calls = calls s @ [DescribeInstancesCall
                                  (DescribeInstancesInput [Filter (Some ''tag:ami-migrate'') [enabledValue]] [])]\<rparr>)
         \<and> (\<exists>cs. issued s (snd (MigrateInstances client oldAMI newAMI enabledValue s)) cs \<and> filter isMutation cs = [])"
  using assms
  by (simp add: MigrateInstances_def fetchEnabledInstances_def Let_def invoke_eq issued_def)

theorem MigrateInstances_none_selected_witness:
  "MigrateInstances (stubClient [] [] allSucceed [inew]) ''ami-old'' ''ami-new'' ''enabled'' start =
     (Returns None,
      \<lparr>world = (), calls = [DescribeInstancesCall (DescribeInstancesInput [Filter (Some ''tag:ami-migrate'') [''enabled'']] [])]\<rparr>)"
  using MigrateInstances_none_selected [of "stubClient [] [] allSucceed [inew]" "''enabled''" start
          "\<lparr>Reservations = [\<lparr>ReservationInstances = []\<rparr>]\<rparr>" "()" "''ami-old''" "''ami-new''"]
  by (simp add: stubClient_def start_def)

subsection \<open>The transient start and stop\<close>

lemma noStopAfterLaunch_before:
  "\<forall>x \<in> set xs. \<not> isRunInstances x \<Longrightarrow> noStopAfterLaunch (xs @ ys) = noStopAfterLaunch ys"
  by (simp add: noStopAfterLaunch_def dropWhile_append)

lemma noStopAfterLaunch_after:
  assumes "noStopAfterLaunch xs" and "\<forall>y \<in> set ys. \<not> isStopInstances y"
  shows "noStopAfterLaunch (xs @ ys)"
proof -
  have "filter isStopInstances (dropWhile (\<lambda>c. \<not> isRunInstances c) ys) = []"
    using assms(2) by (auto simp: filter_empty_conv dest: set_dropWhileD)
  moreover have "filter isStopInstances ys = []"
    using assms(2) by (auto simp: filter_empty_conv)
  ultimately show ?thesis
    using assms(1) by (simp add: noStopAfterLaunch_def dropWhile_append)
qed

lemma snapshots_only:
  assumes "upgradeInstance_snapshots client instance mappings s = (r, s')"
  shows "\<exists>cs. calls s' = calls s @ cs \<and> (\<forall>c \<in> set cs. isCreateSnapshot c)"
  using snapshots_issues [of isCreateSnapshot, OF _ assms]
  by (auto simp: issues_def issued_def list_all_iff)

lemma isCreateSnapshot_others: "isCreateSnapshot c \<Longrightarrow> \<not> isRunInstances c \<and> \<not> isStopInstances c \<and> \<not> isStartInstances c"
  by (cases c) simp_all

lemma upgradeInstance_noStopAfterLaunch:
  assumes eq: "upgradeInstance client newAMI instance s = (r, s')"
  shows "\<exists>cs. calls s' = calls s @ cs \<and> noStopAfterLaunch cs"
proof -
  obtain r1 s1 where s1: "upgradeInstance_snapshots client instance (BlockDeviceMappings instance) s = (r1, s1)"
    by fastforce
  from snapshots_only [OF s1]
  obtain cs where cs: "calls s1 = calls s @ cs" "\<forall>c \<in> set cs. \<not> isRunInstances c"
    by (auto dest: isCreateSnapshot_others)
  have empty: "noStopAfterLaunch cs"
    using noStopAfterLaunch_before [OF cs(2), of "[]"] by (simp add: noStopAfterLaunch_def)
  show ?thesis
    using eq s1 cs empty
    unfolding upgradeInstance_def
    by (auto simp: invoke_eq copyTags_eq stopInstance_def noStopAfterLaunch_before noStopAfterLaunch_def
             split: option.splits prod.splits sum.splits list.splits if_splits)
qed

lemma migrateTask_noStopAfterLaunch:
  "\<exists>cs. issued s (snd (migrateTask client newAMI inst False s)) cs \<and> noStopAfterLaunch cs"
proof -
  obtain r1 s1 where s1: "tagInstanceStatus client inst ''in-progress'' ''Starting migration'' s = (r1, s1)"
    by fastforce
  obtain c1 where c1: "calls s1 = calls s @ [c1]" "\<not> isRunInstances c1"
    using s1 by (auto simp: tagInstanceStatus_eq invoke_eq)
  obtain r2 s2 where s2: "upgradeInstance client newAMI inst s1 = (r2, s2)"
    by fastforce
  from upgradeInstance_noStopAfterLaunch [OF s2]
  obtain cs where cs: "calls s2 = calls s1 @ cs" "noStopAfterLaunch cs"
    by auto
  have a: "noStopAfterLaunch ([c1] @ cs)"
    using c1(2) cs(2) noStopAfterLaunch_before [of "[c1]" cs] by simp
  have b: "noStopAfterLaunch (([c1] @ cs) @ [CreateTagsCall input])" for input
    using a by (rule noStopAfterLaunch_after) simp
  show ?thesis
    using s1 s2 c1 cs a b
    by (cases r2; cases "case r2 of Returns e \<Rightarrow> e | Panics \<Rightarrow> None")
       (auto simp: migrateTask_def issued_def tagInstanceStatus_eq invoke_eq)
qed

text \<open>
  C7. \<^verbatim>\<open>shouldMigrateInstance\<close> never asks for a transient start: the second component of
  its result is false for every instance. So in a run of \<^verbatim>\<open>MigrateInstances\<close> no
  \<^verbatim>\<open>StartInstances\<close> call is made; and in the task of an instance, run with the flag
  the decision gave, no \<^verbatim>\<open>StopInstances\<close> call is made once the launch of the
  replacement has been requested: the stop after the migration is never executed (the only
  stop a task makes is the one of \<^verbatim>\<open>upgradeInstance\<close>, before the launch).
\<close>

theorem transient_start_never:
  "snd (shouldMigrateInstance instance) = False
   \<and> (\<exists>cs. issued s (snd (MigrateInstances client oldAMI newAMI enabledValue s)) cs
           \<and> filter isStartInstances cs = [])
   \<and> (\<exists>cs. issued s (snd (migrateTask client newAMI instance (snd (shouldMigrateInstance instance)) s)) cs
           \<and> noStopAfterLaunch cs)"
proof -
  have "issues (\<lambda>c. \<not> isStartInstances c) s (snd (MigrateInstances client oldAMI newAMI enabledValue s))"
    by (rule MigrateInstances_issues [where r = "fst (MigrateInstances client oldAMI newAMI enabledValue s)"])
       simp_all
  then have "\<exists>cs. issued s (snd (MigrateInstances client oldAMI newAMI enabledValue s)) cs
           \<and> filter isStartInstances cs = []"
    by (auto simp: issues_def list_all_iff filter_empty_conv)
  then show ?thesis
    using migrateTask_noStopAfterLaunch [of s client newAMI "instance"]
    by (simp add: shouldMigrateInstance_snd)
qed

subsection \<open>The status recorder\<close>

lemma statusValues_audit: "statusValues (CreateTagsCall (CreateTagsInput resources (auditTags status message ts))) = [status]"
  by (simp add: auditTags_def)

lemma statusValues_carriedForward: "statusValues (CreateTagsCall (CreateTagsInput resources (carriedForward tags))) = []"
  by (auto simp: carriedForward_def filter_empty_conv ToString_eq_nonempty)

lemma MigrateInstances_statuses:
  "\<exists>cs. issued s (snd (MigrateInstances client oldAMI newAMI enabledValue s)) cs
        \<and> (\<forall>c \<in> set cs. set (statusValues c) \<subseteq> statusSet)"
proof -
  have "issues (\<lambda>c. set (statusValues c) \<subseteq> statusSet) s (snd (MigrateInstances client oldAMI newAMI enabledValue s))"
    by (rule MigrateInstances_issues [where r = "fst (MigrateInstances client oldAMI newAMI enabledValue s)"])
       (simp_all del: statusValues.simps(1) add: statusValues_audit statusValues_carriedForward)
  then show ?thesis
    by (auto simp: issues_def list_all_iff)
qed

lemma migrateTask_start_failed:
  assumes "needsStart" and "Name (State inst) \<noteq> InstanceStateNameRunning"
    and "startInstance client inst (snd (tagInstanceStatus client inst ''in-progress'' ''Starting migration'' s)) = (Some err, s2)"
  shows "migrateTask client newAMI inst needsStart s =
          (Returns (), snd (tagInstanceStatus client inst ''failed'' (''Failed to start instance: '' @ Error err) s2))"
  using assms by (simp add: migrateTask_def Sprintf_v_def case_prod_beta)

lemma migrateTask_upgrade_failed:
  assumes "\<not> needsStart"
    and "upgradeInstance client newAMI inst (snd (tagInstanceStatus client inst ''in-progress'' ''Starting migration'' s)) = (Returns (Some err), s2)"
  shows "migrateTask client newAMI inst needsStart s =
          (Returns (), snd (tagInstanceStatus client inst ''failed'' (''Failed to upgrade instance: '' @ Error err) s2))"
  using assms by (simp add: migrateTask_def Sprintf_v_def case_prod_beta)

lemma migrateTask_stop_failed:
  assumes "needsStart" and "Name (State inst) \<noteq> InstanceStateNameRunning"
    and "startInstance client inst (snd (tagInstanceStatus client inst ''in-progress'' ''Starting migration'' s)) = (None, s2)"
    and "upgradeInstance client newAMI inst s2 = (Returns None, s3)"
    and "stopInstance client inst s3 = (Some err, s4)"
  shows "migrateTask client newAMI inst needsStart s =
          (Returns (), snd (tagInstanceStatus client inst ''warning'' (''Migration successful but failed to stop instance: '' @ Error err) s4))"
  using assms by (simp add: migrateTask_def Sprintf_v_def case_prod_beta)

text \<open>
  C8. \<^verbatim>\<open>tagInstanceStatus\<close> makes one call, \<^verbatim>\<open>CreateTags\<close> on the given instance, with
  exactly the three tags \<^verbatim>\<open>ami-migrate-status\<close>, \<^verbatim>\<open>ami-migrate-message\<close> and
  \<^verbatim>\<open>ami-migrate-timestamp\<close>, whose values are the status, the message, and the clock of
  the world in which the call is made, read in UTC in the layout RFC3339. In a run of
  \<^verbatim>\<open>MigrateInstances\<close> every status written is one of \<^verbatim>\<open>skipped\<close>, \<^verbatim>\<open>in-progress\<close>,
  \<^verbatim>\<open>failed\<close>, \<^verbatim>\<open>warning\<close>, \<^verbatim>\<open>completed\<close>. When the start, the upgrade or the stop
  after the migration fails with \<open>err\<close>, the message recorded ends with the text of
  \<open>err\<close>.
\<close>

theorem tagInstanceStatus_audit_triple:
  "tagInstanceStatus client inst status message s =
     (fst (CreateTags client
             (CreateTagsInput [ToString (InstanceId inst)]
                (auditTags status message (Now_UTC_RFC3339 client (world s)))) (world s)),
      \<lparr>world = snd (CreateTags client
             (CreateTagsInput [ToString (InstanceId inst)]
                (auditTags status message (Now_UTC_RFC3339 client (world s)))) (world s)),
       calls = calls s @
         [CreateTagsCall (CreateTagsInput [ToString (InstanceId inst)]
            (auditTags status message (Now_UTC_RFC3339 client (world s))))]\<rparr>)
   \<and> auditTags status message timestamp =
        [\<lparr>Key = Some ''ami-migrate-status'', Value = Some status\<rparr>,
         \<lparr>Key = Some ''ami-migrate-message'', Value = Some message\<rparr>,
         \<lparr>Key = Some ''ami-migrate-timestamp'', Value = Some timestamp\<rparr>]
   \<and> (\<exists>cs. issued s (snd (MigrateInstances client oldAMI newAMI enabledValue s)) cs \<and>
             (\<forall>c \<in> set cs. set (statusValues c) \<subseteq> {''skipped'', ''in-progress'', ''failed'', ''warning'', ''completed''}))
   \<and> (needsStart \<and> Name (State inst) \<noteq> InstanceStateNameRunning \<and>
        startInstance client inst (snd (tagInstanceStatus client inst ''in-progress'' ''Starting migration'' s)) = (Some err, s2)
        \<longrightarrow> migrateTask client newAMI inst needsStart s =
              (Returns (), snd (tagInstanceStatus client inst ''failed'' (''Failed to start instance: '' @ Error err) s2)))
   \<and> (\<not> needsStart \<and>
        upgradeInstance client newAMI inst (snd (tagInstanceStatus client inst ''in-progress'' ''Starting migration'' s)) = (Returns (Some err), s2)
        \<longrightarrow> migrateTask client newAMI inst needsStart s =
              (Returns (), snd (tagInstanceStatus client inst ''failed'' (''Failed to upgrade instance: '' @ Error err) s2)))
   \<and> (needsStart \<and> Name (State inst) \<noteq> InstanceStateNameRunning \<and>
        startInstance client inst (snd (tagInstanceStatus client inst ''in-progress'' ''Starting migration'' s)) = (None, s2) \<and>
        upgradeInstance client newAMI inst s2 = (Returns None, s3) \<and>
        stopInstance client inst s3 = (Some err, s4)
        \<longrightarrow> migrateTask client newAMI inst needsStart s =
              (Returns (), snd (tagInstanceStatus client inst ''warning''
                                  (''Migration successful but failed to stop instance: '' @ Error err) s4)))"
proof -
  have a: "tagInstanceStatus client inst status message s =
     (fst (CreateTags client
             (CreateTagsInput [ToString (InstanceId inst)]
                (auditTags status message (Now_UTC_RFC3339 client (world s)))) (world s)),
      \<lparr>world = snd (CreateTags client
             (CreateTagsInput [ToString (InstanceId inst)]
                (auditTags status message (Now_UTC_RFC3339 client (world s)))) (world s)),
       calls = calls s @
         [CreateTagsCall (CreateTagsInput [ToString (InstanceId inst)]
            (auditTags status message (Now_UTC_RFC3339 client (world s))))]\<rparr>)"
    by (simp add: tagInstanceStatus_eq invoke_eq)
  have b: "auditTags status message timestamp =
        [\<lparr>Key = Some ''ami-migrate-status'', Value = Some status\<rparr>,
         \<lparr>Key = Some ''ami-migrate-message'', Value = Some message\<rparr>,
         \<lparr>Key = Some ''ami-migrate-timestamp'', Value = Some timestamp\<rparr>]"
    by (simp add: auditTags_def)
  have c: "\<exists>cs. issued s (snd (MigrateInstances client oldAMI newAMI enabledValue s)) cs \<and>
             (\<forall>c \<in> set cs. set (statusValues c) \<subseteq> {''skipped'', ''in-progress'', ''failed'', ''warning'', ''completed''})"
    using MigrateInstances_statuses [of s client oldAMI newAMI enabledValue] unfolding statusSet_def .
  show ?thesis
    using a b c migrateTask_start_failed [of needsStart inst client s err s2 newAMI]
      migrateTask_upgrade_failed [of needsStart client newAMI inst s err s2]
      migrateTask_stop_failed [of needsStart inst client s s2 newAMI s3 err s4]
    by blast
qed

theorem tagInstanceStatus_audit_triple_witness:
  "last (calls (snd (migrateTask (stubClient [] [i2] volBFails [inew]) ''ami-new'' i2 False start))) =
     CreateTagsCall (CreateTagsInput [''i-2'']
       (auditTags ''failed'' ''Failed to upgrade instance: create snapshot: SnapshotCreationPerVolumeRateExceeded''
          ''2024-05-01T12:00:00Z''))
   \<and> last (calls (snd (migrateTask startFails ''ami-new'' i2 True start))) =
     CreateTagsCall (CreateTagsInput [''i-2'']
       (auditTags ''failed'' ''Failed to start instance: IncorrectInstanceState'' ''2024-05-01T12:00:00Z''))
   \<and> last (calls (snd (migrateTask stopFails ''ami-new'' i2 True start))) =
     CreateTagsCall (CreateTagsInput [''i-2'']
       (auditTags ''warning'' ''Migration successful but failed to stop instance: UnsupportedOperation''
          ''2024-05-01T12:00:00Z''))"
proof -
  let ?c = "stubClient [] [i2] volBFails [inew]"
  let ?e = "wrapError ''create snapshot: SnapshotCreationPerVolumeRateExceeded'' (errorString ''SnapshotCreationPerVolumeRateExceeded'')"
  let ?s1 = "\<lambda>c. snd (tagInstanceStatus c i2 ''in-progress'' ''Starting migration'' start)"
  have up: "upgradeInstance ?c ''ami-new'' i2 (?s1 ?c) = (Returns (Some ?e), snd (upgradeInstance ?c ''ami-new'' i2 (?s1 ?c)))"
    by (simp add: upgradeInstance_def stubClient_def i2_def volBFails_def invoke_eq Errorf_w_def)
  have st: "startInstance startFails i2 (?s1 startFails) =
              (Some (errorString ''IncorrectInstanceState''), snd (startInstance startFails i2 (?s1 startFails)))"
    by (simp add: startInstance_def startFails_def stubClient_def invoke_eq)
  have ok: "startInstance stopFails i2 (?s1 stopFails) = (None, snd (startInstance stopFails i2 (?s1 stopFails)))"
    by (simp add: startInstance_def stopFails_def stubClient_def invoke_eq case_prod_beta)
  have up2: "upgradeInstance stopFails ''ami-new'' i2 (snd (startInstance stopFails i2 (?s1 stopFails))) =
               (Returns None, snd (upgradeInstance stopFails ''ami-new'' i2 (snd (startInstance stopFails i2 (?s1 stopFails)))))"
    by (simp add: upgradeInstance_def stopFails_def stubClient_def i2_def inew_def allSucceed_def invoke_eq copyTags_eq)
  have sp: "stopInstance stopFails i2 (snd (upgradeInstance stopFails ''ami-new'' i2 (snd (startInstance stopFails i2 (?s1 stopFails))))) =
              (Some (errorString ''UnsupportedOperation''),
               snd (stopInstance stopFails i2 (snd (upgradeInstance stopFails ''ami-new'' i2 (snd (startInstance stopFails i2 (?s1 stopFails)))))))"
    by (simp add: stopInstance_def stopFails_def stubClient_def invoke_eq)
  have state: "Name (State i2) \<noteq> InstanceStateNameRunning"
    by (simp add: i2_def)
  have w1: "migrateTask ?c ''ami-new'' i2 False start =
              (Returns (), snd (tagInstanceStatus ?c i2 ''failed'' (''Failed to upgrade instance: '' @ Error ?e)
                                  (snd (upgradeInstance ?c ''ami-new'' i2 (?s1 ?c)))))"
    using tagInstanceStatus_audit_triple [where client = ?c and inst = i2 and s = start and needsStart = False and err = ?e
            and ?s2.0 = "snd (upgradeInstance ?c ''ami-new'' i2 (?s1 ?c))" and newAMI = "''ami-new''"] up
    by blast
  have w2: "migrateTask startFails ''ami-new'' i2 True start =
              (Returns (), snd (tagInstanceStatus startFails i2 ''failed''
                                  (''Failed to start instance: '' @ Error (errorString ''IncorrectInstanceState''))
                                  (snd (startInstance startFails i2 (?s1 startFails)))))"
    using tagInstanceStatus_audit_triple [where client = startFails and inst = i2 and s = start and needsStart = True
            and err = "errorString ''IncorrectInstanceState''"
            and ?s2.0 = "snd (startInstance startFails i2 (?s1 startFails))" and newAMI = "''ami-new''"] st state
    by blast
  have w3: "migrateTask stopFails ''ami-new'' i2 True start =
              (Returns (), snd (tagInstanceStatus stopFails i2 ''warning''
                                  (''Migration successful but failed to stop instance: '' @ Error (errorString ''UnsupportedOperation''))
                                  (snd (stopInstance stopFails i2 (snd (upgradeInstance stopFails ''ami-new'' i2 (snd (startInstance stopFails i2 (?s1 stopFails)))))))))"
    using tagInstanceStatus_audit_triple [where client = stopFails and inst = i2 and s = start and needsStart = True
            and err = "errorString ''UnsupportedOperation''"
            and ?s2.0 = "snd (startInstance stopFails i2 (?s1 stopFails))" and newAMI = "''ami-new''"
            and ?s3.0 = "snd (upgradeInstance stopFails ''ami-new'' i2 (snd (startInstance stopFails i2 (?s1 stopFails))))"
            and ?s4.0 = "snd (stopInstance stopFails i2 (snd (upgradeInstance stopFails ''ami-new'' i2 (snd (startInstance stopFails i2 (?s1 stopFails))))))"]
          ok up2 sp state
    by blast
  show ?thesis
    unfolding w1 w2 w3
    by (simp add: tagInstanceStatus_eq invoke_eq stubClient_def startFails_def stopFails_def i2_def)
qed

subsection \<open>A snapshot that fails\<close>

lemma upgradeInstance_snapshot_failed:
  assumes "upgradeInstance_snapshots client instance (BlockDeviceMappings instance) s = (Some e, s')"
  shows "upgradeInstance client newAMI instance s = (Returns (Some e), s')"
  using assms by (simp add: upgradeInstance_def)

lemma isAudit_auditTags:
  "isAudit instanceId status message (CreateTagsCall (CreateTagsInput [instanceId] (auditTags status message ts)))"
  by (simp add: auditTags_def)

lemma snapshots_append:
  "upgradeInstance_snapshots client instance (before @ rest) s =
     (case upgradeInstance_snapshots client instance before s of
        (Some e, s') \<Rightarrow> (Some e, s')
      | (None, s') \<Rightarrow> upgradeInstance_snapshots client instance rest s')"
  by (induction before arbitrary: s) (auto split: option.splits prod.splits)

lemma snapshots_first_failure:
  assumes "Ebs mapping = Some ebs"
    and "upgradeInstance_snapshots client instance before s = (None, s0)"
    and "fst (CreateSnapshot client
                (CreateSnapshotInput (VolumeId ebs)
                   (Some (''Backup before AMI migration for instance '' @ ToString (InstanceId instance))))
                (world s0)) = Some err"
  shows "upgradeInstance_snapshots client instance (before @ mapping # rest) s =
           (Some (Errorf_w ''create snapshot: '' err),
            snd (invoke (CreateSnapshot client) CreateSnapshotCall
                   (CreateSnapshotInput (VolumeId ebs)
                      (Some (''Backup before AMI migration for instance '' @ ToString (InstanceId instance)))) s0))"
  using assms by (simp add: snapshots_append invoke_eq)

text \<open>
  C5. In the task of an instance let the snapshot requests for the mappings \<open>before\<close>
  succeed and let the provider answer the request for the next mapping with an EBS
  device with an error \<open>err\<close>. Then \<^verbatim>\<open>upgradeInstance\<close> returns \<open>err\<close> wrapped with the
  text \<^verbatim>\<open>create snapshot: \<close>, in the state right after that request: the mappings
  after it are not tried and no other call is made. The task records the status
  \<^verbatim>\<open>failed\<close> with the text of the error and ends. All the calls of the task are: the
  audit write \<^verbatim>\<open>in-progress\<close>, snapshot requests, the audit write \<^verbatim>\<open>failed\<close>. So no
  instance is launched and nothing is done about the snapshots already taken.
\<close>

theorem snapshot_failure_fails_task:
  assumes volumes: "BlockDeviceMappings inst = before @ mapping # rest" "Ebs mapping = Some ebs"
    and earlier: "upgradeInstance_snapshots client inst before
                    (snd (tagInstanceStatus client inst ''in-progress'' ''Starting migration'' s)) = (None, s0)"
    and fails: "fst (CreateSnapshot client
                       (CreateSnapshotInput (VolumeId ebs)
                          (Some (''Backup before AMI migration for instance '' @ ToString (InstanceId inst))))
                       (world s0)) = Some err"
    and after: "s2 = snd (invoke (CreateSnapshot client) CreateSnapshotCall
                            (CreateSnapshotInput (VolumeId ebs)
                               (Some (''Backup before AMI migration for instance '' @ ToString (InstanceId inst)))) s0)"
  shows "upgradeInstance client newAMI inst
            (snd (tagInstanceStatus client inst ''in-progress'' ''Starting migration'' s)) =
           (Returns (Some (Errorf_w ''create snapshot: '' err)), s2)
       \<and> Error (Errorf_w ''create snapshot: '' err) = ''create snapshot: '' @ Error err
       \<and> migrateTask client newAMI inst (snd (shouldMigrateInstance inst)) s =
            (Returns (), snd (tagInstanceStatus client inst ''failed''
                                (''Failed to upgrade instance: create snapshot: '' @ Error err) s2))
       \<and> (\<exists>c1 cs c2. issued s (snd (migrateTask client newAMI inst (snd (shouldMigrateInstance inst)) s)) ([c1] @ cs @ [c2]) \<and>
             isAudit (ToString (InstanceId inst)) ''in-progress'' ''Starting migration'' c1 \<and>
             list_all isCreateSnapshot cs \<and>
             isAudit (ToString (InstanceId inst)) ''failed''
               (''Failed to upgrade instance: create snapshot: '' @ Error err) c2)"
proof -
  let ?s1 = "snd (tagInstanceStatus client inst ''in-progress'' ''Starting migration'' s)"
  let ?e = "Errorf_w ''create snapshot: '' err"
  let ?s3 = "snd (tagInstanceStatus client inst ''failed'' (''Failed to upgrade instance: '' @ Error ?e) s2)"
  have loop: "upgradeInstance_snapshots client inst (BlockDeviceMappings inst) ?s1 = (Some ?e, s2)"
    unfolding volumes(1) after using volumes(2) earlier fails by (rule snapshots_first_failure)
  have msg: "Error ?e = ''create snapshot: '' @ Error err"
    by (simp add: Errorf_w_def)
  have up: "upgradeInstance client newAMI inst ?s1 = (Returns (Some ?e), s2)"
    using loop by (rule upgradeInstance_snapshot_failed)
  have task: "migrateTask client newAMI inst (snd (shouldMigrateInstance inst)) s = (Returns (), ?s3)"
    using up by (simp add: shouldMigrateInstance_snd migrateTask_upgrade_failed)
  obtain cs where cs: "calls s2 = calls ?s1 @ cs" "\<forall>c \<in> set cs. isCreateSnapshot c"
    using snapshots_only [OF loop] by blast
  have "issued s ?s3
          ([CreateTagsCall (CreateTagsInput [ToString (InstanceId inst)]
               (auditTags ''in-progress'' ''Starting migration'' (Now_UTC_RFC3339 client (world s))))]
           @ cs @
           [CreateTagsCall (CreateTagsInput [ToString (InstanceId inst)]
               (auditTags ''failed'' (''Failed to upgrade instance: '' @ Error ?e) (Now_UTC_RFC3339 client (world s2))))])"
    using cs(1) by (simp add: issued_def tagInstanceStatus_eq invoke_eq)
  then have log: "\<exists>c1 cs c2. issued s ?s3 ([c1] @ cs @ [c2]) \<and>
             isAudit (ToString (InstanceId inst)) ''in-progress'' ''Starting migration'' c1 \<and>
             list_all isCreateSnapshot cs \<and>
             isAudit (ToString (InstanceId inst)) ''failed'' (''Failed to upgrade instance: '' @ Error ?e) c2"
    using cs(2) isAudit_auditTags [of "ToString (InstanceId inst)"] unfolding list_all_iff by blast
  show ?thesis
    using up msg task log by (simp add: Errorf_w_def)
qed

theorem snapshot_failure_fails_task_witness:
  "migrateTask (stubClient [] [i2] volBFails [inew]) ''ami-new'' i2 False start =
     (Returns (),
      \<lparr>world = (), calls =
        [CreateTagsCall (CreateTagsInput [''i-2''] (auditTags ''in-progress'' ''Starting migration'' ''2024-05-01T12:00:00Z'')),
         CreateSnapshotCall (CreateSnapshotInput (Some ''vol-a'') (Some ''Backup before AMI migration for instance i-2'')),
         CreateSnapshotCall (CreateSnapshotInput (Some ''vol-b'') (Some ''Backup before AMI migration for instance i-2'')),
         CreateTagsCall (CreateTagsInput [''i-2'']
           (auditTags ''failed'' ''Failed to upgrade instance: create snapshot: SnapshotCreationPerVolumeRateExceeded''
              ''2024-05-01T12:00:00Z''))]\<rparr>)"
proof -
  let ?c = "stubClient [] [i2] volBFails [inew]"
  let ?m1 = "\<lparr>DeviceName = Some ''/dev/sda1'', Ebs = Some \<lparr>VolumeId = Some ''vol-a''\<rparr>\<rparr>"
  let ?m2 = "\<lparr>DeviceName = Some ''/dev/sdb'', Ebs = Some \<lparr>VolumeId = Some ''vol-b''\<rparr>\<rparr>"
  let ?s1 = "snd (tagInstanceStatus ?c i2 ''in-progress'' ''Starting migration'' start)"
  let ?s0 = "snd (upgradeInstance_snapshots ?c i2 [?m1] ?s1)"
  let ?input = "CreateSnapshotInput (VolumeId \<lparr>VolumeId = Some ''vol-b''\<rparr>)
                  (Some (''Backup before AMI migration for instance '' @ ToString (InstanceId i2)))"
  have volumes: "BlockDeviceMappings i2 = [?m1] @ ?m2 # []"
    by (simp add: i2_def)
  have ebs: "Ebs ?m2 = Some \<lparr>VolumeId = Some ''vol-b''\<rparr>"
    by simp
  have earlier: "upgradeInstance_snapshots ?c i2 [?m1] ?s1 = (None, ?s0)"
    by (simp add: stubClient_def volBFails_def invoke_eq)
  have fails: "fst (CreateSnapshot ?c ?input (world ?s0)) = Some (errorString ''SnapshotCreationPerVolumeRateExceeded'')"
    by (simp add: stubClient_def volBFails_def)
  show ?thesis
    using snapshot_failure_fails_task [OF volumes ebs earlier fails refl, of "''ami-new''"]
    by (simp add: shouldMigrateInstance_snd stubClient_def volBFails_def i2_def start_def
          tagInstanceStatus_eq invoke_eq auditTags_def)
qed

subsection \<open>Instances that are not eligible\<close>










subsection \<open>A stopped instance with two volumes\<close>

text \<open>
  C3, as the service does it. Let the instance be stopped and have two mappings, each
  with an EBS device, and let every call to the provider succeed, each launch answering
  \<open>newInstance\<close> first. Then the instance is eligible and the calls of its task are, in
  this order: the audit write \<^verbatim>\<open>in-progress\<close> on the source; one snapshot request for
  each of the two volumes; one launch with the new image and the type of the source, for
  one instance; the termination of the source; the tag write on the new instance with
  the tags of the source without the status tag; and the audit write \<^verbatim>\<open>completed\<close>
  on the source instance.
\<close>

theorem stopped_instance_task_calls:
  assumes stopped: "Name (State inst) = InstanceStateNameStopped"
    and volumes: "BlockDeviceMappings inst = [m1, m2]" "Ebs m1 = Some e1" "Ebs m2 = Some e2"
    and snapshot: "\<forall>input w. fst (CreateSnapshot client input w) = None"
    and launch: "\<forall>input w. \<exists>out more. fst (RunInstances client input w) = Inr out \<and> Instances out = newInstance # more"
    and terminate: "\<forall>input w. fst (TerminateInstances client input w) = None"
    and tags: "\<forall>input w. fst (CreateTags client input w) = None"
  shows "fst (MigrateInstances_loop client newAMI [inst] s) = Returns () \<and>
         (\<exists>t1 t2. issued s (snd (MigrateInstances_loop client newAMI [inst] s))
            [CreateTagsCall (CreateTagsInput [ToString (InstanceId inst)]
               (auditTags ''in-progress'' ''Starting migration'' t1)),
             CreateSnapshotCall (CreateSnapshotInput (VolumeId e1)
               (Some (''Backup before AMI migration for instance '' @ ToString (InstanceId inst)))),
             CreateSnapshotCall (CreateSnapshotInput (VolumeId e2)
               (Some (''Backup before AMI migration for instance '' @ ToString (InstanceId inst)))),
             RunInstancesCall (RunInstancesInput (Some newAMI) (InstanceType inst) (Some 1) (Some 1)),
             TerminateInstancesCall (TerminateInstancesInput [ToString (InstanceId inst)]),
             CreateTagsCall (CreateTagsInput [ToString (InstanceId newInstance)] (carriedForward (Tags inst))),
             CreateTagsCall (CreateTagsInput [ToString (InstanceId inst)]
               (auditTags ''completed'' ''Migration completed successfully'' t2))])"
proof -
  have eligible: "shouldMigrateInstance inst = (True, False)"
    using stopped by (simp add: shouldMigrateInstance_def)
  let ?s1 = "snd (tagInstanceStatus client inst ''in-progress'' ''Starting migration'' s)"
  let ?d = "Some (''Backup before AMI migration for instance '' @ ToString (InstanceId inst))"
  let ?c1 = "CreateSnapshotCall (CreateSnapshotInput (VolumeId e1) ?d)"
  let ?c2 = "CreateSnapshotCall (CreateSnapshotInput (VolumeId e2) ?d)"
  obtain s2 where snaps: "upgradeInstance_snapshots client inst (BlockDeviceMappings inst) ?s1 = (None, s2)"
    and s2: "calls s2 = calls ?s1 @ [?c1, ?c2]"
    using volumes snapshot by (simp add: invoke_eq)
  let ?run = "RunInstancesInput (Some newAMI) (InstanceType inst) (Some 1) (Some 1)"
  obtain out more where out: "fst (RunInstances client ?run (world s2)) = Inr out" "Instances out = newInstance # more"
    using launch by blast
  let ?s3 = "\<lparr>world = snd (RunInstances client ?run (world s2)), calls = calls s2 @ [RunInstancesCall ?run]\<rparr>"
  have run: "invoke (RunInstances client) RunInstancesCall ?run s2 = (Inr out, ?s3)"
    using out(1) by (simp add: invoke_eq)
  obtain s5 where up: "upgradeInstance client newAMI inst ?s1 = (Returns None, s5)"
    and s5: "calls s5 = calls s2 @ [RunInstancesCall ?run,
                                    TerminateInstancesCall (TerminateInstancesInput [ToString (InstanceId inst)]),
                                    CreateTagsCall (CreateTagsInput [ToString (InstanceId newInstance)] (carriedForward (Tags inst)))]"
    using snaps run out(2) stopped terminate tags
    by (simp add: upgradeInstance_def copyTags_eq invoke_eq)
  have task: "migrateTask client newAMI inst False s =
                (Returns (), snd (tagInstanceStatus client inst ''completed'' ''Migration completed successfully'' s5))"
    using up by (simp add: migrateTask_def case_prod_beta)
  have loop: "MigrateInstances_loop client newAMI [inst] s =
                (Returns (), snd (tagInstanceStatus client inst ''completed'' ''Migration completed successfully'' s5))"
    using eligible task by simp
  have "issued s (snd (MigrateInstances_loop client newAMI [inst] s))
            [CreateTagsCall (CreateTagsInput [ToString (InstanceId inst)]
               (auditTags ''in-progress'' ''Starting migration'' (Now_UTC_RFC3339 client (world s)))),
             ?c1, ?c2, RunInstancesCall ?run,
             TerminateInstancesCall (TerminateInstancesInput [ToString (InstanceId inst)]),
             CreateTagsCall (CreateTagsInput [ToString (InstanceId newInstance)] (carriedForward (Tags inst))),
             CreateTagsCall (CreateTagsInput [ToString (InstanceId inst)]
               (auditTags ''completed'' ''Migration completed successfully'' (Now_UTC_RFC3339 client (world s5))))]"
    unfolding loop using s2 s5 by (simp add: issued_def tagInstanceStatus_eq invoke_eq)
  then show ?thesis
    using loop by (metis fst_conv)
qed

theorem stopped_instance_task_calls_witness:
  "fst (MigrateInstances_loop (stubClient [] [i2] allSucceed [inew]) ''ami-new'' [i2] start) = Returns () \<and>
   (\<exists>t1 t2. calls (snd (MigrateInstances_loop (stubClient [] [i2] allSucceed [inew]) ''ami-new'' [i2] start)) =
     [CreateTagsCall (CreateTagsInput [''i-2''] (auditTags ''in-progress'' ''Starting migration'' t1)),
      CreateSnapshotCall (CreateSnapshotInput (Some ''vol-a'') (Some ''Backup before AMI migration for instance i-2'')),
      CreateSnapshotCall (CreateSnapshotInput (Some ''vol-b'') (Some ''Backup before AMI migration for instance i-2'')),
      RunInstancesCall (RunInstancesInput (Some ''ami-new'') ''t3.large'' (Some 1) (Some 1)),
      TerminateInstancesCall (TerminateInstancesInput [''i-2'']),
      CreateTagsCall (CreateTagsInput [''i-new'']
        [\<lparr>Key = Some ''ami-migrate'', Value = Some ''enabled''\<rparr>, \<lparr>Key = Some ''Owner'', Value = Some ''alice''\<rparr>]),
      CreateTagsCall (CreateTagsInput [''i-2''] (auditTags ''completed'' ''Migration completed successfully'' t2))])"
proof -
  let ?c = "stubClient [] [i2] allSucceed [inew]"
  let ?m1 = "\<lparr>DeviceName = Some ''/dev/sda1'', Ebs = Some \<lparr>VolumeId = Some ''vol-a''\<rparr>\<rparr>"
  let ?m2 = "\<lparr>DeviceName = Some ''/dev/sdb'', Ebs = Some \<lparr>VolumeId = Some ''vol-b''\<rparr>\<rparr>"
  have stopped: "Name (State i2) = InstanceStateNameStopped"
    and volumes: "BlockDeviceMappings i2 = [?m1, ?m2]"
    by (simp_all add: i2_def)
  have e1: "Ebs ?m1 = Some \<lparr>VolumeId = Some ''vol-a''\<rparr>"
    and e2: "Ebs ?m2 = Some \<lparr>VolumeId = Some ''vol-b''\<rparr>"
    by simp_all
  have snapshot: "\<forall>input w. fst (CreateSnapshot ?c input w) = None"
    by (simp add: stubClient_def allSucceed_def split: CreateSnapshotInput.splits)
  have launch: "\<forall>input w. \<exists>out more. fst (RunInstances ?c input w) = Inr out \<and> Instances out = inew # more"
    by (simp add: stubClient_def)
  have terminate: "\<forall>input w. fst (TerminateInstances ?c input w) = None"
    and tags: "\<forall>input w. fst (CreateTags ?c input w) = None"
    by (simp_all add: stubClient_def)
  have vals: "ToString (InstanceId i2) = ''i-2''" "ToString (InstanceId inew) = ''i-new''"
    "InstanceType i2 = ''t3.large''"
    "carriedForward (Tags i2) =
       [\<lparr>Key = Some ''ami-migrate'', Value = Some ''enabled''\<rparr>, \<lparr>Key = Some ''Owner'', Value = Some ''alice''\<rparr>]"
    "VolumeId \<lparr>VolumeId = Some ''vol-a''\<rparr> = Some ''vol-a''" "VolumeId \<lparr>VolumeId = Some ''vol-b''\<rparr> = Some ''vol-b''"
    "calls start = []"
    by (simp_all add: i2_def inew_def carriedForward_def start_def)
  show ?thesis
    using stopped_instance_task_calls [OF stopped volumes e1 e2 snapshot launch terminate tags, of "''ami-new''" start]
    unfolding issued_def vals by simp
qed

text \<open>
  The final audit write is not on the new instance: these are all the calls of a run for
  the stopped instance \<^verbatim>\<open>i-2\<close> with the volumes \<^verbatim>\<open>vol-a\<close> and \<^verbatim>\<open>vol-b\<close>, where the
  provider launches \<^verbatim>\<open>i-new\<close>. The last one writes \<^verbatim>\<open>completed\<close> on \<^verbatim>\<open>i-2\<close>, and no
  call writes it on \<^verbatim>\<open>i-new\<close>.
\<close>

theorem completed_on_source_counterexample:
  "calls (snd (MigrateInstances (stubClient [] [i2] allSucceed [inew]) ''ami-old'' ''ami-new'' ''enabled'' start)) =
     [DescribeInstancesCall (DescribeInstancesInput [Filter (Some ''tag:ami-migrate'') [''enabled'']] []),
      CreateTagsCall (CreateTagsInput [''i-2''] (auditTags ''in-progress'' ''Starting migration'' ''2024-05-01T12:00:00Z'')),
      CreateSnapshotCall (CreateSnapshotInput (Some ''vol-a'') (Some ''Backup before AMI migration for instance i-2'')),
      CreateSnapshotCall (CreateSnapshotInput (Some ''vol-b'') (Some ''Backup before AMI migration for instance i-2'')),
      RunInstancesCall (RunInstancesInput (Some ''ami-new'') ''t3.large'' (Some 1) (Some 1)),
      TerminateInstancesCall (TerminateInstancesInput [''i-2'']),
      CreateTagsCall (CreateTagsInput [''i-new'']
        [\<lparr>Key = Some ''ami-migrate'', Value = Some ''enabled''\<rparr>, \<lparr>Key = Some ''Owner'', Value = Some ''alice''\<rparr>]),
      CreateTagsCall (CreateTagsInput [''i-2'']
        (auditTags ''completed'' ''Migration completed successfully'' ''2024-05-01T12:00:00Z''))]
   \<and> filter (isAudit ''i-new'' ''completed'' ''Migration completed successfully'')
        (calls (snd (MigrateInstances (stubClient [] [i2] allSucceed [inew]) ''ami-old'' ''ami-new'' ''enabled'' start))) = []"
  by (simp add: MigrateInstances_def fetchEnabledInstances_def Let_def invoke_eq stubClient_def start_def i2_def inew_def
        allSucceed_def shouldMigrateInstance_def migrateTask_def upgradeInstance_def copyTags_eq carriedForward_def
        tagInstanceStatus_eq auditTags_def)

end
